theory Spec2Isabelle
  imports Main "HOL-Library.Word"
begin

section \<open>Go values used by btcmarkets.go\<close>

text \<open>
  A Go \<open>string\<close> and a Go \<open>[]byte\<close> are both sequences of bytes: the type \<open>string\<close> of
  HOL (a list of 8-bit characters). An \<open>int64\<close> is a 64-bit word read with \<open>sint\<close>.
  A \<open>float64\<close> is carried as its IEEE-754 bit pattern: the file never computes with
  one, it only stores them and hands them to other packages.
\<close>

type_synonym int64 = "64 word"
type_synonym float64 = "64 word"

text \<open>
  A non-nil \<open>error\<close> is its message. The functions declared in other files return
  \<open>error + 'a\<close>: \<open>Inl err\<close> is \<open>err != nil\<close>. A function of this file that slices a
  string can also panic, which no \<open>err != nil\<close> test catches: it returns
  \<open>failure + 'a\<close>, with \<open>Inl (Error err)\<close> for a returned error and \<open>Inl (Panic m)\<close>
  for a run-time panic.
\<close>

type_synonym error = string

datatype failure = Error error | Panic string

text \<open>The slice expression \<open>s[lo:hi]\<close> on a string; \<open>s[lo:]\<close> is \<open>s[lo:len(s)]\<close>.\<close>

definition slice :: "string \<Rightarrow> nat \<Rightarrow> nat \<Rightarrow> failure + string" where
  "slice s lo hi =
     (if lo \<le> hi \<and> hi \<le> length s then Inr (take (hi - lo) (drop lo s))
      else Inl (Panic ''slice bounds out of range''))"

definition slice_from :: "string \<Rightarrow> nat \<Rightarrow> failure + string" where
  "slice_from s lo = slice s lo (length s)"

text \<open>
  \<open>fmt.Sprintf\<close> for the verb \<open>%s\<close> with string operands, the only verb in a format
  whose result the file returns or sends. Any other character is copied.
\<close>

fun Sprintf :: "string \<Rightarrow> string list \<Rightarrow> string" where
  "Sprintf [] args = []"
| "Sprintf [c] args = [c]"
| "Sprintf (c # d # fmt) args =
     (if c = CHR ''%'' \<and> d = CHR ''s'' then
        (case args of
           [] \<Rightarrow> ''%!s(MISSING)'' @ Sprintf fmt []
         | a # rest \<Rightarrow> a @ Sprintf fmt rest)
      else c # Sprintf (d # fmt) args)"

text \<open>\<open>strconv.FormatInt(i, 10)\<close>: the decimal digits, most significant first, after a
  minus sign when \<open>i\<close> is negative.\<close>

definition digit_char :: "nat \<Rightarrow> char" where
  "digit_char d = ''0123456789'' ! d"

fun FormatUint :: "nat \<Rightarrow> string" where
  "FormatUint n = (if n < 10 then [digit_char n] else FormatUint (n div 10) @ [digit_char (n mod 10)])"

declare FormatUint.simps [simp del]

definition FormatInt :: "int \<Rightarrow> string" where
  "FormatInt i = (if i < 0 then CHR ''-'' # FormatUint (nat (- i)) else FormatUint (nat i))"

definition is_digit :: "char \<Rightarrow> bool" where
  "is_digit c = (c \<in> set ''0123456789'')"

section \<open>Constants and structs\<close>

definition BTCMARKETS_API_URL :: string where
  "BTCMARKETS_API_URL = ''https://api.btcmarkets.net''"

definition BTCMARKETS_ACCOUNT_BALANCE :: string where
  "BTCMARKETS_ACCOUNT_BALANCE = ''/account/balance''"

definition BTCMARKETS_ORDER_CREATE :: string where
  "BTCMARKETS_ORDER_CREATE = ''/order/create''"

definition BTCMARKETS_ORDER_CANCEL :: string where
  "BTCMARKETS_ORDER_CANCEL = ''/order/cancel''"

definition BTCMARKETS_ORDER_HISTORY :: string where
  "BTCMARKETS_ORDER_HISTORY = ''/order/history''"

definition BTCMARKETS_ORDER_OPEN :: string where
  "BTCMARKETS_ORDER_OPEN = ''/order/open''"

definition BTCMARKETS_ORDER_DETAIL :: string where
  "BTCMARKETS_ORDER_DETAIL = ''/order/detail''"

record BTCMarketsTicker =
  BestBID :: float64
  BestAsk :: float64
  LastPrice :: float64
  Currency :: string
  Instrument :: string
  Timestamp :: int64

record BTCMarkets =
  Name :: string
  Enabled :: bool
  Verbose :: bool
  Websocket :: bool
  RESTPollingDelay :: int64
  Fee :: float64
  Ticker :: "(string \<rightharpoonup> BTCMarketsTicker) option"
  AuthenticatedAPISupport :: bool
  APIKey :: string
  APISecret :: string
  BaseCurrencies :: "string list"
  AvailablePairs :: "string list"
  EnabledPairs :: "string list"

text \<open>
  The field \<open>Ticker\<close> is a Go map: \<open>None\<close> is the \<open>nil\<close> map, which reads as empty
  and panics when written; \<open>Some m\<close> is a map made by \<open>make\<close>. \<open>Ticker_at\<close> reads
  \<open>b.Ticker[key]\<close>.
\<close>

definition Ticker_at :: "BTCMarkets \<Rightarrow> string \<Rightarrow> BTCMarketsTicker option" where
  "Ticker_at b key = (case Ticker b of None \<Rightarrow> None | Some m \<Rightarrow> m key)"

text \<open>The zero values \<open>BTCMarketsTicker{}\<close> and \<open>BTCMarkets{}\<close>.\<close>

definition BTCMarketsTicker_zero :: BTCMarketsTicker where
  "BTCMarketsTicker_zero =
     \<lparr>BestBID = 0, BestAsk = 0, LastPrice = 0, Currency = [], Instrument = [], Timestamp = 0\<rparr>"

definition BTCMarkets_zero :: BTCMarkets where
  "BTCMarkets_zero =
     \<lparr>Name = [], Enabled = False, Verbose = False, Websocket = False, RESTPollingDelay = 0,
      Fee = 0, Ticker = None, AuthenticatedAPISupport = False, APIKey = [],
      APISecret = [], BaseCurrencies = [], AvailablePairs = [], EnabledPairs = []\<rparr>"

section \<open>Functions of other files\<close>

text \<open>
  \<open>Base64Decode\<close>, \<open>Base64Encode\<close>, \<open>GetHMAC\<close>, \<open>SendHTTPRequest\<close> and
  \<open>ConvertCurrency\<close> are called by this file and declared elsewhere. Every function
  below takes them as a parameter, so every theorem holds whatever they compute; a panic
  inside one of them is not modelled.
  \<open>GetHMAC\<close> takes the hash, the input and the key, in this order. \<open>ConvertCurrency\<close>
  returns an amount and an error, which the file ignores. The hash constants are declared
  elsewhere too; the file names \<open>HASH_SHA512\<close> only.
\<close>

datatype hash_type = HASH_SHA1 | HASH_SHA256 | HASH_SHA512

record collaborators =
  Base64Decode :: "string \<Rightarrow> error + string"
  Base64Encode :: "string \<Rightarrow> string"
  GetHMAC :: "hash_type \<Rightarrow> string \<Rightarrow> string \<Rightarrow> string"
  SendHTTPRequest :: "string \<Rightarrow> string \<Rightarrow> (string \<rightharpoonup> string) \<Rightarrow> string \<Rightarrow> error + string"
  ConvertCurrency :: "float64 \<Rightarrow> string \<Rightarrow> string \<Rightarrow> float64 \<times> error option"

section \<open>Configuration\<close>

text \<open>\<open>0.85\<close> as a \<open>float64\<close> has the bit pattern \<open>0x3FEB333333333333\<close>.\<close>

definition SetDefaults :: "BTCMarkets \<Rightarrow> BTCMarkets" where
  "SetDefaults b =
     b\<lparr>Name := ''BTC Markets'', Enabled := True, Fee := 0x3FEB333333333333,
       Verbose := False, Websocket := False, RESTPollingDelay := 10,
       Ticker := Some Map.empty\<rparr>"

definition GetName :: "BTCMarkets \<Rightarrow> string" where
  "GetName b = Name b"

definition SetEnabled :: "BTCMarkets \<Rightarrow> bool \<Rightarrow> BTCMarkets" where
  "SetEnabled b enabled = b\<lparr>Enabled := enabled\<rparr>"

definition IsEnabled :: "BTCMarkets \<Rightarrow> bool" where
  "IsEnabled b = Enabled b"

text \<open>\<open>SetAPIKeys\<close> mutates the receiver; the model returns the new struct. The log line
  of the failing branch is not part of the state.\<close>

definition SetAPIKeys :: "collaborators \<Rightarrow> BTCMarkets \<Rightarrow> string \<Rightarrow> string \<Rightarrow> BTCMarkets" where
  "SetAPIKeys c b apiKey apiSecret =
     (if \<not> AuthenticatedAPISupport b then b
      else
        (let b1 = b\<lparr>APIKey := apiKey\<rparr> in
         case Base64Decode c apiSecret of
           Inl err \<Rightarrow> b1\<lparr>Enabled := False\<rparr>
         | Inr result \<Rightarrow> b1\<lparr>APISecret := result\<rparr>))"

section \<open>What the file does to the outside\<close>

text \<open>
  Each function returns, beside its result, the calls it made to the outside, in order:
  \<open>SendHTTPRequest(method, url, headers, body)\<close>, \<open>SendHTTPGetRequest(url, jsonDecode, _)\<close>,
  \<open>JSONDecode(raw, _)\<close> and \<open>AddExchangeInfo(name, base, quote, price, volume)\<close>.
  Log lines are not recorded. The \<open>headers\<close> map of Go is a map of HOL.
\<close>

datatype event =
    HTTPRequest string string "string \<rightharpoonup> string" string
  | HTTPGetRequest string bool
  | JSONDecodeCall string
  | ExchangeInfo string string string float64 float64

fun is_HTTPRequest :: "event \<Rightarrow> bool" where
  "is_HTTPRequest (HTTPRequest m u h bd) = True"
| "is_HTTPRequest (HTTPGetRequest u j) = False"
| "is_HTTPRequest (JSONDecodeCall raw) = False"
| "is_HTTPRequest (ExchangeInfo n bc qc p v) = False"

fun header_of :: "event \<Rightarrow> string \<Rightarrow> string option" where
  "header_of (HTTPRequest m u h bd) k = h k"
| "header_of (HTTPGetRequest u j) k = None"
| "header_of (JSONDecodeCall raw) k = None"
| "header_of (ExchangeInfo n bc qc p v) k = None"

text \<open>
  The \<open>result interface{}\<close> of \<open>SendAuthenticatedRequest\<close> is \<open>nil\<close> or a pointer to a
  struct of the caller; \<open>Into r\<close> is a pointer to a struct that holds \<open>r\<close> now. The JSON
  decoder is declared elsewhere and is a parameter: given the raw text and the target it
  fails, or answers what the target holds afterwards (for \<open>nil\<close>: the value it decoded,
  which nobody reads).
\<close>

datatype 'r target = Discard | Into 'r

section \<open>The authenticated request\<close>

definition newline :: string where
  "newline = [CHR 0x0A]"

text \<open>\<open>strconv.FormatInt(time.Now().UnixNano(), 10)[0:13]\<close>, for the clock reading \<open>now\<close>.\<close>

definition nonce_at :: "int64 \<Rightarrow> failure + string" where
  "nonce_at now = slice (FormatInt (sint now)) 0 13"

text \<open>\<open>bytes.NewBuffer(data)\<close>: the bytes a reader of the buffer gets.\<close>

definition bytes_NewBuffer :: "string option \<Rightarrow> string" where
  "bytes_NewBuffer data = (case data of None \<Rightarrow> [] | Some d \<Rightarrow> d)"

text \<open>Lines 353 to 359: the string that is signed. \<open>data\<close> is \<open>None\<close> for a \<open>nil\<close>
  slice.\<close>

definition canonical_request :: "string \<Rightarrow> string \<Rightarrow> string option \<Rightarrow> string" where
  "canonical_request path nonce data =
     (case data of
        Some d \<Rightarrow> path @ newline @ nonce @ newline @ d
      | None \<Rightarrow> path @ newline @ nonce @ newline)"

text \<open>Lines 361 and 367 to 373: the signature and the header map.\<close>

definition request_headers :: "collaborators \<Rightarrow> BTCMarkets \<Rightarrow> string \<Rightarrow> string \<Rightarrow> (string \<rightharpoonup> string)" where
  "request_headers c b nonce request =
     (let hmac = GetHMAC c HASH_SHA512 request (APISecret b)
      in Map.empty(''Accept'' \<mapsto> ''application/json'',
           ''Accept-Charset'' \<mapsto> ''UTF-8'',
           ''Content-Type'' \<mapsto> ''application/json'',
           ''apikey'' \<mapsto> APIKey b,
           ''timestamp'' \<mapsto> nonce,
           ''signature'' \<mapsto> Base64Encode c hmac))"

definition SendAuthenticatedRequest ::
  "collaborators \<Rightarrow> (string \<Rightarrow> 'r target \<Rightarrow> error + 'r) \<Rightarrow> int64 \<Rightarrow> BTCMarkets \<Rightarrow>
   string \<Rightarrow> string \<Rightarrow> string option \<Rightarrow> 'r target \<Rightarrow> (failure + 'r) \<times> event list" where
  "SendAuthenticatedRequest c JSONDecode now b reqType path data result =
     (case nonce_at now of
        Inl p \<Rightarrow> (Inl p, [])
      | Inr nonce \<Rightarrow>
        (let request = canonical_request path nonce data;
             headers = request_headers c b nonce request;
             url = BTCMARKETS_API_URL @ path;
             body = bytes_NewBuffer data;
             sent = HTTPRequest reqType url headers body
         in case SendHTTPRequest c reqType url headers body of
              Inl err \<Rightarrow> (Inl (Error err), [sent])
            | Inr resp \<Rightarrow>
              (case JSONDecode resp result of
                 Inl err \<Rightarrow> (Inl (Error err), [sent, JSONDecodeCall resp])
               | Inr v \<Rightarrow> (Inr v, [sent, JSONDecodeCall resp]))))"

section \<open>Market data\<close>

record BTCMarketsTrade =
  TradeID :: int64
  Amount :: float64
  Price :: float64
  Date :: int64

text \<open>\<open>SendHTTPGetRequest(url, jsonDecode, &result)\<close> is declared elsewhere: given the
  value the target holds, it fails or answers the value the target holds afterwards.\<close>

definition GetTicker ::
  "(string \<Rightarrow> bool \<Rightarrow> BTCMarketsTicker \<Rightarrow> error + BTCMarketsTicker) \<Rightarrow> BTCMarkets \<Rightarrow> string \<Rightarrow>
   (error + BTCMarketsTicker) \<times> event list" where
  "GetTicker SendHTTPGetRequest b symbol =
     (let ticker = BTCMarketsTicker_zero;
          path = Sprintf ''/market/%s/AUD/tick'' [symbol];
          url = BTCMARKETS_API_URL @ path
      in case SendHTTPGetRequest url True ticker of
           Inl err \<Rightarrow> (Inl err, [HTTPGetRequest url True])
         | Inr ticker' \<Rightarrow> (Inr ticker', [HTTPGetRequest url True]))"

definition GetTrades ::
  "(string \<Rightarrow> bool \<Rightarrow> BTCMarketsTrade list \<Rightarrow> error + BTCMarketsTrade list) \<Rightarrow> BTCMarkets \<Rightarrow>
   string \<Rightarrow> string \<Rightarrow> (error + BTCMarketsTrade list) \<times> event list" where
  "GetTrades SendHTTPGetRequest b symbol since =
     (let trades = [];
          path =
            (if length since > 0 then Sprintf ''/market/%s/AUD/trades?since=%s'' [symbol, since]
             else Sprintf ''/market/%s/AUD/trades'' [symbol]);
          url = BTCMARKETS_API_URL @ path
      in case SendHTTPGetRequest url True trades of
           Inl err \<Rightarrow> (Inl err, [HTTPGetRequest url True])
         | Inr trades' \<Rightarrow> (Inr trades', [HTTPGetRequest url True]))"

section \<open>Orders\<close>

text \<open>The structs \<open>Order\<close> and \<open>Response\<close> declared inside \<open>func Order\<close>; their fields
  carry the prefix \<open>Order_\<close> here, since \<open>CancelOrder\<close> declares a \<open>Response\<close> as well.
  Where the Go function returns \<open>(0, err)\<close> the model returns \<open>Inl (Error err)\<close>, and
  \<open>Inr id\<close> where it returns \<open>(id, nil)\<close>; likewise \<open>CancelOrder\<close> returns
  \<open>Inl (Error err)\<close> for \<open>(false, err)\<close> and \<open>Inr True\<close> for \<open>(true, nil)\<close>.\<close>

record Order_Order =
  Order_Currency :: string
  Order_Instrument :: string
  Order_Price :: int64
  Order_Volume :: int64
  Order_OrderSide :: string
  Order_OrderType :: string
  Order_ClientRequestId :: string

record Order_Response =
  Order_Success :: bool
  Order_ErrorCode :: int
  Order_ErrorMessage :: string
  Order_ID :: int
  Order_ClientRequestID :: string

definition Order_Response_zero :: Order_Response where
  "Order_Response_zero =
     \<lparr>Order_Success = False, Order_ErrorCode = 0, Order_ErrorMessage = [], Order_ID = 0,
      Order_ClientRequestID = []\<rparr>"

definition Order ::
  "collaborators \<Rightarrow> (Order_Order \<Rightarrow> error + string) \<Rightarrow>
   (string \<Rightarrow> Order_Response target \<Rightarrow> error + Order_Response) \<Rightarrow> int64 \<Rightarrow> BTCMarkets \<Rightarrow>
   string \<Rightarrow> string \<Rightarrow> int64 \<Rightarrow> int64 \<Rightarrow> string \<Rightarrow> string \<Rightarrow> string \<Rightarrow>
   (failure + int) \<times> event list" where
  "Order c JSONEncode JSONDecode now b currency instrument price amount orderSide orderType clientReq =
     (let order =
            \<lparr>Order_Currency = currency, Order_Instrument = instrument, Order_Price = price,
             Order_Volume = amount, Order_OrderSide = orderSide, Order_OrderType = orderType,
             Order_ClientRequestId = clientReq\<rparr>
      in case JSONEncode order of
           Inl err \<Rightarrow> (Inl (Error err), [])
         | Inr JSONPayload \<Rightarrow>
           (case SendAuthenticatedRequest c JSONDecode now b ''POST'' BTCMARKETS_ORDER_CREATE
                   (Some JSONPayload) (Into Order_Response_zero) of
              (Inl failed, evs) \<Rightarrow> (Inl failed, evs)
            | (Inr resp, evs) \<Rightarrow>
              if \<not> Order_Success resp then
                (Inl (Error (Sprintf (''%s Unable to place order. Error message: %s'' @ newline)
                        [GetName b, Order_ErrorMessage resp])), evs)
              else (Inr (Order_ID resp), evs)))"

text \<open>The structs of \<open>func CancelOrder\<close>: the request, the element of \<open>Responses\<close> and
  the response.\<close>

record CancelOrder_CancelOrder =
  Cancel_OrderIDs :: "int64 list"

record CancelOrder_Item =
  Item_Success :: bool
  Item_ErrorCode :: int
  Item_ErrorMessage :: string
  Item_ID :: int64

record CancelOrder_Response =
  Cancel_Success :: bool
  Cancel_ErrorCode :: int
  Cancel_ErrorMessage :: string
  Cancel_Responses :: "CancelOrder_Item list"
  Cancel_ClientRequestID :: string

definition CancelOrder_Response_zero :: CancelOrder_Response where
  "CancelOrder_Response_zero =
     \<lparr>Cancel_Success = False, Cancel_ErrorCode = 0, Cancel_ErrorMessage = [],
      Cancel_Responses = [], Cancel_ClientRequestID = []\<rparr>"

text \<open>The loop over \<open>resp.Responses\<close>, from the count \<open>ordersCancelled\<close> so far.\<close>

fun count_cancelled :: "CancelOrder_Item list \<Rightarrow> int \<Rightarrow> int" where
  "count_cancelled [] ordersCancelled = ordersCancelled"
| "count_cancelled (y # ys) ordersCancelled =
     count_cancelled ys (if Item_Success y then ordersCancelled + 1 else ordersCancelled)"

definition CancelOrder ::
  "collaborators \<Rightarrow> (CancelOrder_CancelOrder \<Rightarrow> error + string) \<Rightarrow>
   (string \<Rightarrow> CancelOrder_Response target \<Rightarrow> error + CancelOrder_Response) \<Rightarrow> int64 \<Rightarrow>
   BTCMarkets \<Rightarrow> int64 list \<Rightarrow> (failure + bool) \<times> event list" where
  "CancelOrder c JSONEncode JSONDecode now b orderID =
     (let orders = \<lparr>Cancel_OrderIDs = [] @ orderID\<rparr>
      in case JSONEncode orders of
           Inl err \<Rightarrow> (Inl (Error err), [])
         | Inr JSONPayload \<Rightarrow>
           (case SendAuthenticatedRequest c JSONDecode now b ''POST'' BTCMARKETS_ORDER_CANCEL
                   (Some JSONPayload) (Into CancelOrder_Response_zero) of
              (Inl failed, evs) \<Rightarrow> (Inl failed, evs)
            | (Inr resp, evs) \<Rightarrow>
              if \<not> Cancel_Success resp then
                (Inl (Error (Sprintf (''%s Unable to cancel order. Error message: %s'' @ newline)
                        [GetName b, Cancel_ErrorMessage resp])), evs)
              else
                (let ordersToBeCancelled = int (length orderID);
                     ordersCancelled = count_cancelled (Cancel_Responses resp) 0
                 in if ordersCancelled = ordersToBeCancelled then (Inr True, evs)
                    else (Inl (Error (Sprintf ''%s Unable to cancel order(s).'' [GetName b])), evs))))"

text \<open>\<open>GetOrders\<close> builds a \<open>map[string]interface{}\<close> of two strings and two
  \<open>int64\<close>, passes \<open>nil\<close> as the result and returns nothing: an error is logged. The model
  answers the panic that stopped it (if one did) and the calls it made.\<close>

datatype json_field = JString string | JInt64 int64

definition GetOrders ::
  "collaborators \<Rightarrow> ((string \<rightharpoonup> json_field) \<Rightarrow> error + string) \<Rightarrow>
   (string \<Rightarrow> unit target \<Rightarrow> error + unit) \<Rightarrow> int64 \<Rightarrow> BTCMarkets \<Rightarrow>
   string \<Rightarrow> string \<Rightarrow> int64 \<Rightarrow> int64 \<Rightarrow> bool \<Rightarrow> failure option \<times> event list" where
  "GetOrders c JSONEncode JSONDecode now b currency instrument limit since historic =
     (let request =
            Map.empty(''currency'' \<mapsto> JString currency, ''instrument'' \<mapsto> JString instrument,
              ''limit'' \<mapsto> JInt64 limit, ''since'' \<mapsto> JInt64 since)
      in case JSONEncode request of
           Inl err \<Rightarrow> (None, [])
         | Inr JSONPayload \<Rightarrow>
           (let path = (if historic then BTCMARKETS_ORDER_HISTORY else BTCMARKETS_ORDER_OPEN)
            in case SendAuthenticatedRequest c JSONDecode now b ''POST'' path (Some JSONPayload)
                      Discard of
                 (Inl (Panic m), evs) \<Rightarrow> (Some (Panic m), evs)
               | (Inl (Error err), evs) \<Rightarrow> (None, evs)
               | (Inr v, evs) \<Rightarrow> (None, evs)))"

section \<open>The poller\<close>

text \<open>
  \<open>Run\<close> starts, for every enabled pair, a goroutine that runs the function literal of
  lines 138 to 151 with \<open>currency\<close> bound to the pair. \<open>Run_task\<close> is that function
  literal, run from the client state \<open>b\<close> to its end: it answers the panic that stopped
  it (if one did), the client state it leaves and the calls it made. Writing
  \<open>b.Ticker[currency]\<close> panics when the map is \<open>nil\<close>. The arguments of a
  call are evaluated from left to right, so \<open>currency[0:3]\<close> is sliced before
  \<open>currency[3:]\<close>, and both before \<open>AddExchangeInfo\<close> is entered. The converted bid and
  ask only appear in the log line.
\<close>

definition Run_task ::
  "collaborators \<Rightarrow> (string \<Rightarrow> bool \<Rightarrow> BTCMarketsTicker \<Rightarrow> error + BTCMarketsTicker) \<Rightarrow>
   BTCMarkets \<Rightarrow> string \<Rightarrow> failure option \<times> BTCMarkets \<times> event list" where
  "Run_task c SendHTTPGetRequest b currency =
     (case GetTicker SendHTTPGetRequest b currency of
        (Inl err, evs) \<Rightarrow> (None, b, evs)
      | (Inr ticker, evs) \<Rightarrow>
        (case Ticker b of
           None \<Rightarrow> (Some (Panic ''assignment to entry in nil map''), b, evs)
         | Some m \<Rightarrow>
           (let b' = b\<lparr>Ticker := Some (m(currency \<mapsto> ticker))\<rparr>;
                BTCMarketsLastUSD = fst (ConvertCurrency c (LastPrice ticker) ''AUD'' ''USD'');
                BTCMarketsBestBidUSD = fst (ConvertCurrency c (BestBID ticker) ''AUD'' ''USD'');
                BTCMarketsBestAskUSD = fst (ConvertCurrency c (BestAsk ticker) ''AUD'' ''USD'')
            in case slice currency 0 3 of
                 Inl p \<Rightarrow> (Some p, b', evs)
               | Inr base \<Rightarrow>
                 (case slice_from currency 3 of
                    Inl p \<Rightarrow> (Some p, b', evs)
                  | Inr quote \<Rightarrow>
                    (let info1 = ExchangeInfo (GetName b') base quote (LastPrice ticker) 0
                     in case slice currency 0 3 of
                          Inl p \<Rightarrow> (Some p, b', evs @ [info1])
                        | Inr base2 \<Rightarrow>
                          (None, b',
                           evs @ [info1,
                             ExchangeInfo (GetName b') base2 ''USD'' BTCMarketsLastUSD 0]))))))"

section \<open>Sample inputs\<close>

text \<open>
  Concrete inputs for the instances below: a client after \<open>SetDefaults\<close> with
  authenticated access switched on, the clock at 1234567890.123456789 s after the epoch,
  the body \<open>{"x":1}\<close>, and stand-ins for the functions of other files. The stand-in
  decoder accepts one string, the base64 of \<open>abc123\<close>; the stand-in transport answers
  every request with \<open>{}\<close>.
\<close>

definition sample_client :: BTCMarkets where
  "sample_client = (SetDefaults BTCMarkets_zero)\<lparr>AuthenticatedAPISupport := True\<rparr>"

definition sample_now :: int64 where
  "sample_now = 1234567890123456789"

definition sample_body :: string where
  "sample_body = [CHR ''{'', CHR 0x22, CHR ''x'', CHR 0x22, CHR '':'', CHR ''1'', CHR ''}'']"

definition sample_collaborators :: collaborators where
  "sample_collaborators =
     \<lparr>Base64Decode = (\<lambda>s. if s = ''YWJjMTIz'' then Inr ''abc123'' else Inl ''illegal base64 data''),
      Base64Encode = (\<lambda>s. ''base64('' @ s @ '')''),
      GetHMAC = (\<lambda>h input key. ''hmac('' @ key @ '','' @ input @ '')''),
      SendHTTPRequest = (\<lambda>reqType url headers body. Inr ''{}''),
      ConvertCurrency = (\<lambda>amount src dst. (amount, None))\<rparr>"

definition sample_ticker :: BTCMarketsTicker where
  "sample_ticker =
     \<lparr>BestBID = 1, BestAsk = 2, LastPrice = 3, Currency = ''AUD'', Instrument = ''BTC'',
      Timestamp = 1234567890\<rparr>"

text \<open>A cancel response that reports overall success, with one sub-response that
  succeeded and one that did not.\<close>

definition sample_cancel_response :: CancelOrder_Response where
  "sample_cancel_response =
     \<lparr>Cancel_Success = True, Cancel_ErrorCode = 0, Cancel_ErrorMessage = [],
      Cancel_Responses =
        [\<lparr>Item_Success = True, Item_ErrorCode = 0, Item_ErrorMessage = [], Item_ID = 7\<rparr>,
         \<lparr>Item_Success = False, Item_ErrorCode = 3, Item_ErrorMessage = ''order not found'',
          Item_ID = 8\<rparr>],
      Cancel_ClientRequestID = []\<rparr>"

section \<open>Lemmas about the library functions and the request\<close>

lemma FormatUint_nonempty: "FormatUint n \<noteq> []"
  by (subst FormatUint.simps) simp

lemma is_digit_digit_char: "d < 10 \<Longrightarrow> is_digit (digit_char d)"
  unfolding is_digit_def digit_char_def by (rule nth_mem) simp

lemma FormatUint_digits: "\<forall>ch \<in> set (FormatUint n). is_digit ch"
proof (induction n rule: FormatUint.induct)
  case (1 n)
  show ?case
  proof (cases "n < 10")
    case True
    then show ?thesis by (subst FormatUint.simps) (simp add: is_digit_digit_char)
  next
    case False
    with 1 show ?thesis by (subst FormatUint.simps) (simp add: is_digit_digit_char)
  qed
qed

lemma FormatUint_length: "10 ^ k \<le> n \<Longrightarrow> k < length (FormatUint n)"
proof (induction n arbitrary: k rule: FormatUint.induct)
  case (1 n)
  show ?case
  proof (cases "n < 10")
    case True
    have "k = 0"
    proof (rule ccontr)
      assume "k \<noteq> 0"
      then have "(10::nat) ^ 1 \<le> 10 ^ k" by (intro power_increasing) simp_all
      with 1(2) True show False by simp
    qed
    then show ?thesis by (subst FormatUint.simps) simp
  next
    case False
    show ?thesis
    proof (cases k)
      case 0
      then show ?thesis by (subst FormatUint.simps) simp
    next
      case (Suc j)
      with 1(2) have "10 ^ j \<le> n div 10" by simp
      with 1(1) False have "j < length (FormatUint (n div 10))" by simp
      with Suc False show ?thesis by (subst FormatUint.simps) simp
    qed
  qed
qed

lemma FormatUint_take:
  "0 < k \<Longrightarrow> k \<le> length (FormatUint n) \<Longrightarrow>
   take k (FormatUint n) = FormatUint (n div 10 ^ (length (FormatUint n) - k))"
proof (induction n rule: FormatUint.induct)
  case (1 n)
  show ?case
  proof (cases "n < 10")
    case True
    then have eq: "FormatUint n = [digit_char n]" by (subst FormatUint.simps) simp
    with 1(2,3) have "k = 1" by simp
    with eq show ?thesis by simp
  next
    case False
    then have eq: "FormatUint n = FormatUint (n div 10) @ [digit_char (n mod 10)]"
      by (subst FormatUint.simps) simp
    show ?thesis
    proof (cases "k \<le> length (FormatUint (n div 10))")
      case True
      with 1(1)[OF False 1(2)] have
        "take k (FormatUint (n div 10)) =
           FormatUint (n div 10 div 10 ^ (length (FormatUint (n div 10)) - k))" by simp
      moreover have "n div 10 div 10 ^ (length (FormatUint (n div 10)) - k)
          = n div 10 ^ (length (FormatUint n) - k)"
        using True by (simp add: eq div_mult2_eq Suc_diff_le)
      ultimately show ?thesis using True by (simp add: eq)
    next
      case False
      with 1(3) have "k = length (FormatUint n)" by (simp add: eq)
      then show ?thesis by simp
    qed
  qed
qed

lemma FormatUint_sample: "FormatUint 1234567890123456789 = ''1234567890123456789''"
  by (simp add: FormatUint.simps digit_char_def)

lemma sint_sample_now: "sint sample_now = 1234567890123456789"
  by (simp add: sample_now_def)

lemma FormatInt_sample_now: "FormatInt (sint sample_now) = ''1234567890123456789''"
  by (simp add: sint_sample_now FormatInt_def FormatUint_sample)

lemma nonce_at_sample_now: "nonce_at sample_now = Inr ''1234567890123''"
  by (simp add: nonce_at_def FormatInt_sample_now slice_def)

lemma nonce_at_0: "nonce_at 0 = Inl (Panic ''slice bounds out of range'')"
  by (simp add: nonce_at_def FormatInt_def FormatUint.simps slice_def)

lemma nonce_at_999999999999: "nonce_at 999999999999 = Inl (Panic ''slice bounds out of range'')"
  by (simp add: nonce_at_def FormatInt_def FormatUint.simps slice_def)

lemma nonce_at_negative: "nonce_at (- 1234567890123456789) = Inr ''-123456789012''"
  by (simp add: nonce_at_def FormatInt_def FormatUint.simps digit_char_def slice_def)

lemma Sprintf_place:
  "Sprintf (''%s Unable to place order. Error message: %s'' @ newline) [n, m]
     = n @ '' Unable to place order. Error message: '' @ m @ newline"
  by (simp add: newline_def)

lemma Sprintf_cancel:
  "Sprintf (''%s Unable to cancel order. Error message: %s'' @ newline) [n, m]
     = n @ '' Unable to cancel order. Error message: '' @ m @ newline"
  by (simp add: newline_def)

lemma Sprintf_cancel_some:
  "Sprintf ''%s Unable to cancel order(s).'' [n] = n @ '' Unable to cancel order(s).''"
  by simp

lemma Sprintf_trades: "Sprintf ''/market/%s/AUD/trades'' [symbol] = ''/market/'' @ symbol @ ''/AUD/trades''"
  by simp

lemma Sprintf_trades_since:
  "Sprintf ''/market/%s/AUD/trades?since=%s'' [symbol, since]
     = ''/market/'' @ symbol @ ''/AUD/trades?since='' @ since"
  by simp

lemma Sprintf_tick: "Sprintf ''/market/%s/AUD/tick'' [symbol] = ''/market/'' @ symbol @ ''/AUD/tick''"
  by simp

lemma SendAuthenticatedRequest_no_nonce:
  "nonce_at now = Inl p \<Longrightarrow>
   SendAuthenticatedRequest c dec now b reqType path data result = (Inl p, [])"
  by (simp add: SendAuthenticatedRequest_def)

lemma SendAuthenticatedRequest_transport_error:
  assumes "nonce_at now = Inr nonce"
    and "SendHTTPRequest c reqType (BTCMARKETS_API_URL @ path)
           (request_headers c b nonce (canonical_request path nonce data)) (bytes_NewBuffer data) = Inl err"
  shows "SendAuthenticatedRequest c dec now b reqType path data result =
     (Inl (Error err),
      [HTTPRequest reqType (BTCMARKETS_API_URL @ path)
         (request_headers c b nonce (canonical_request path nonce data)) (bytes_NewBuffer data)])"
  using assms by (simp add: SendAuthenticatedRequest_def Let_def)

lemma SendAuthenticatedRequest_decoded:
  assumes "nonce_at now = Inr nonce"
    and "SendHTTPRequest c reqType (BTCMARKETS_API_URL @ path)
           (request_headers c b nonce (canonical_request path nonce data)) (bytes_NewBuffer data) = Inr raw"
  shows "SendAuthenticatedRequest c dec now b reqType path data result =
     ((case dec raw result of Inl err \<Rightarrow> Inl (Error err) | Inr v \<Rightarrow> Inr v),
      [HTTPRequest reqType (BTCMARKETS_API_URL @ path)
         (request_headers c b nonce (canonical_request path nonce data)) (bytes_NewBuffer data),
       JSONDecodeCall raw])"
  using assms by (simp add: SendAuthenticatedRequest_def Let_def split: sum.splits)

lemma SendAuthenticatedRequest_first_call:
  assumes "nonce_at now = Inr nonce"
  shows "\<exists>rest. snd (SendAuthenticatedRequest c dec now b reqType path data result) =
     HTTPRequest reqType (BTCMARKETS_API_URL @ path)
         (request_headers c b nonce (canonical_request path nonce data)) (bytes_NewBuffer data) # rest
     \<and> filter is_HTTPRequest rest = []"
  using assms by (simp add: SendAuthenticatedRequest_def Let_def split: sum.splits)

lemma count_cancelled_filter:
  "count_cancelled ys n = n + int (length (filter Item_Success ys))"
  by (induction ys arbitrary: n) simp_all

lemma sample_secret_rejected:
  "Base64Decode sample_collaborators ''not base64!'' = Inl ''illegal base64 data''"
  by (simp add: sample_collaborators_def)

lemma sample_client_supported: "AuthenticatedAPISupport sample_client"
  by (simp add: sample_client_def)

lemma nonce_at_large:
  assumes "10 ^ 12 \<le> sint now"
  shows "nonce_at now = Inr (take 13 (FormatUint (nat (sint now))))"
    and "13 \<le> length (FormatUint (nat (sint now)))"
    and "FormatInt (sint now) = FormatUint (nat (sint now))"
proof -
  have "nat (10 ^ 12) \<le> nat (sint now)" using assms by (rule nat_mono)
  moreover have "nat (10 ^ 12) = (10::nat) ^ 12" by (simp add: nat_power_eq)
  ultimately have "(10::nat) ^ 12 \<le> nat (sint now)" by simp
  then have "12 < length (FormatUint (nat (sint now)))" by (rule FormatUint_length)
  then show len: "13 \<le> length (FormatUint (nat (sint now)))" by simp
  from assms show fmt: "FormatInt (sint now) = FormatUint (nat (sint now))"
    by (simp add: FormatInt_def)
  from len fmt show "nonce_at now = Inr (take 13 (FormatUint (nat (sint now))))"
    by (simp add: nonce_at_def slice_def)
qed

lemma request_headers_timestamp: "request_headers c b nonce request ''timestamp'' = Some nonce"
  by (simp add: request_headers_def Let_def)

lemma request_headers_signature:
  "request_headers c b nonce request ''signature'' =
     Some (Base64Encode c (GetHMAC c HASH_SHA512 request (APISecret b)))"
  by (simp add: request_headers_def Let_def)

lemma SendAuthenticatedRequest_header:
  assumes "nonce_at now = Inr nonce"
  shows "header_of (hd (snd (SendAuthenticatedRequest c dec now b reqType path data result))) k
     = request_headers c b nonce (canonical_request path nonce data) k"
proof -
  from SendAuthenticatedRequest_first_call [OF assms, of c dec b reqType path data result]
  obtain rest where "snd (SendAuthenticatedRequest c dec now b reqType path data result) =
     HTTPRequest reqType (BTCMARKETS_API_URL @ path)
         (request_headers c b nonce (canonical_request path nonce data)) (bytes_NewBuffer data) # rest"
    by blast
  then show ?thesis by simp
qed

lemma GetOrders_sample_events:
  "snd (GetOrders sample_collaborators (\<lambda>request. Inr ''{}'') (\<lambda>raw t. Inr ()) sample_now b
          ''AUD'' ''BTC'' 10 0 False)
   = [HTTPRequest ''POST'' (BTCMARKETS_API_URL @ BTCMARKETS_ORDER_OPEN)
        (request_headers sample_collaborators b ''1234567890123''
           (canonical_request BTCMARKETS_ORDER_OPEN ''1234567890123'' (Some ''{}''))) ''{}'',
      JSONDecodeCall ''{}'']"
  by (simp add: GetOrders_def SendAuthenticatedRequest_def nonce_at_sample_now Let_def
      sample_collaborators_def bytes_NewBuffer_def)

lemma CancelOrder_reconciled:
  assumes "JSONEncode \<lparr>Cancel_OrderIDs = orderID\<rparr> = Inr JSONPayload"
    and "nonce_at now = Inr nonce"
    and "SendHTTPRequest c ''POST'' (BTCMARKETS_API_URL @ BTCMARKETS_ORDER_CANCEL)
           (request_headers c b nonce (canonical_request BTCMARKETS_ORDER_CANCEL nonce (Some JSONPayload)))
           JSONPayload = Inr raw"
    and "JSONDecode raw (Into CancelOrder_Response_zero) = Inr resp"
    and "Cancel_Success resp"
  shows "fst (CancelOrder c JSONEncode JSONDecode now b orderID)
         = (if length (filter Item_Success (Cancel_Responses resp)) = length orderID then Inr True
            else Inl (Error (Name b @ '' Unable to cancel order(s).'')))"
proof -
  from assms(3) have "SendHTTPRequest c ''POST'' (BTCMARKETS_API_URL @ BTCMARKETS_ORDER_CANCEL)
           (request_headers c b nonce (canonical_request BTCMARKETS_ORDER_CANCEL nonce (Some JSONPayload)))
           (bytes_NewBuffer (Some JSONPayload)) = Inr raw"
    by (simp add: bytes_NewBuffer_def)
  from SendAuthenticatedRequest_decoded [OF assms(2) this, of JSONDecode "Into CancelOrder_Response_zero"]
  show ?thesis
    using assms(1,4,5) by (simp add: CancelOrder_def GetName_def count_cancelled_filter Let_def)
qed

lemma sample_transport_cancel:
  "SendHTTPRequest sample_collaborators ''POST'' (BTCMARKETS_API_URL @ BTCMARKETS_ORDER_CANCEL)
      (request_headers sample_collaborators sample_client ''1234567890123''
         (canonical_request BTCMARKETS_ORDER_CANCEL ''1234567890123'' (Some ''{}''))) ''{}'' = Inr ''{}''"
  by (simp add: sample_collaborators_def)

lemma sample_cancel_response_facts:
  "Cancel_Success sample_cancel_response"
  "length (Cancel_Responses sample_cancel_response) = 2"
  "length (filter Item_Success (Cancel_Responses sample_cancel_response)) = 1"
  "\<exists>y \<in> set (Cancel_Responses sample_cancel_response). \<not> Item_Success y"
  by (simp_all add: sample_cancel_response_def)

lemma sample_client_Name: "Name sample_client = ''BTC Markets''"
  by (simp add: sample_client_def SetDefaults_def)

lemma sample_transport:
  "SendHTTPRequest sample_collaborators reqType url headers body = Inr ''{}''"
  by (simp add: sample_collaborators_def)

lemma GetTicker_events:
  "snd (GetTicker get b symbol) =
     [HTTPGetRequest (BTCMARKETS_API_URL @ ''/market/'' @ symbol @ ''/AUD/tick'') True]"
  by (simp add: GetTicker_def Let_def split: sum.splits)

lemma Run_task_fetch_error:
  assumes "fst (GetTicker get b currency) = Inl err"
  shows "Run_task c get b currency = (None, b, snd (GetTicker get b currency))"
  using assms by (cases "GetTicker get b currency") (simp add: Run_task_def)

lemma Run_task_fetch_ok:
  assumes "fst (GetTicker get b currency) = Inr ticker" and "Ticker b = Some m"
  shows "fst (snd (Run_task c get b currency)) = b\<lparr>Ticker := Some (m(currency \<mapsto> ticker))\<rparr>"
  using assms
  by (cases "GetTicker get b currency") (simp add: Run_task_def Let_def split: sum.splits)

lemma Run_task_nil_map:
  assumes "fst (GetTicker get b currency) = Inr ticker" and "Ticker b = None"
  shows "Run_task c get b currency =
     (Some (Panic ''assignment to entry in nil map''), b, snd (GetTicker get b currency))"
  using assms by (cases "GetTicker get b currency") (simp add: Run_task_def)

lemma GetTicker_sample_ok: "fst (GetTicker (\<lambda>url j t. Inr sample_ticker) b symbol) = Inr sample_ticker"
  by (simp add: GetTicker_def Let_def)

lemma GetTicker_sample_error: "fst (GetTicker (\<lambda>url j t. Inl ''timeout'') b symbol) = Inl ''timeout''"
  by (simp add: GetTicker_def Let_def)

lemma sample_client_Ticker: "Ticker sample_client = Some Map.empty"
  by (simp add: sample_client_def SetDefaults_def)

section \<open>Theorems\<close>

text \<open>
  C10. When \<open>AuthenticatedAPISupport\<close> is false, \<open>SetAPIKeys\<close> returns the client as it
  was: \<open>APIKey\<close>, \<open>APISecret\<close> and \<open>Enabled\<close> keep their values, whatever the decoder
  would answer for the secret (also when it would reject it).
\<close>

theorem SetAPIKeys_unsupported_no_effect:
  assumes "\<not> AuthenticatedAPISupport b"
  shows "SetAPIKeys c b apiKey apiSecret = b
    \<and> APIKey (SetAPIKeys c b apiKey apiSecret) = APIKey b
    \<and> APISecret (SetAPIKeys c b apiKey apiSecret) = APISecret b
    \<and> Enabled (SetAPIKeys c b apiKey apiSecret) = Enabled b"
  using assms by (simp add: SetAPIKeys_def)

text \<open>The instance: a client after \<open>SetDefaults\<close> (no authenticated access) keeps
  \<open>Enabled = true\<close> and its empty key when given a secret the decoder would reject.\<close>

theorem SetAPIKeys_unsupported_no_effect_witness:
  "\<not> AuthenticatedAPISupport (SetDefaults BTCMarkets_zero)
   \<and> Base64Decode sample_collaborators ''not base64!'' = Inl ''illegal base64 data''
   \<and> SetAPIKeys sample_collaborators (SetDefaults BTCMarkets_zero) ''key'' ''not base64!''
        = SetDefaults BTCMarkets_zero
   \<and> Enabled (SetAPIKeys sample_collaborators (SetDefaults BTCMarkets_zero) ''key'' ''not base64!'')
   \<and> APIKey (SetAPIKeys sample_collaborators (SetDefaults BTCMarkets_zero) ''key'' ''not base64!'') = []"
proof -
  have h: "\<not> AuthenticatedAPISupport (SetDefaults BTCMarkets_zero)"
    by (simp add: SetDefaults_def BTCMarkets_zero_def)
  from SetAPIKeys_unsupported_no_effect [OF h, of sample_collaborators "''key''" "''not base64!''"]
  show ?thesis using h
    by (simp add: sample_secret_rejected) (simp add: SetDefaults_def BTCMarkets_zero_def)
qed

text \<open>
  C1, as the code has it. When authenticated access is on and the decoder rejects the
  secret, \<open>SetAPIKeys\<close> stores the key, leaves the secret as it was and sets
  \<open>Enabled\<close> to false. \<open>SendAuthenticatedRequest\<close> never reads \<open>Enabled\<close>: called on
  that client (at a clock reading that yields a nonce) it makes exactly one transport
  request.
\<close>

theorem SetAPIKeys_decode_failure_disables_client_only:
  assumes "AuthenticatedAPISupport b"
    and "Base64Decode c apiSecret = Inl err"
  shows "Enabled (SetAPIKeys c b apiKey apiSecret) = False
     \<and> APIKey (SetAPIKeys c b apiKey apiSecret) = apiKey
     \<and> APISecret (SetAPIKeys c b apiKey apiSecret) = APISecret b
     \<and> (nonce_at now = Inr nonce \<longrightarrow>
          length (filter is_HTTPRequest
            (snd (SendAuthenticatedRequest c dec now (SetAPIKeys c b apiKey apiSecret)
                    reqType path data result))) = 1)"
proof -
  have "nonce_at now = Inr nonce \<Longrightarrow>
          length (filter is_HTTPRequest
            (snd (SendAuthenticatedRequest c dec now (SetAPIKeys c b apiKey apiSecret)
                    reqType path data result))) = 1"
  proof -
    assume n: "nonce_at now = Inr nonce"
    from SendAuthenticatedRequest_first_call [OF n, of c dec "SetAPIKeys c b apiKey apiSecret"
        reqType path data result]
    show ?thesis by auto
  qed
  with assms show ?thesis by (simp add: SetAPIKeys_def)
qed

text \<open>The instance: the sample client, the secret \<open>not base64!\<close>, a \<open>GET\<close> of the
  account balance.\<close>

theorem SetAPIKeys_decode_failure_disables_client_only_witness:
  "AuthenticatedAPISupport sample_client
   \<and> Base64Decode sample_collaborators ''not base64!'' = Inl ''illegal base64 data''
   \<and> nonce_at sample_now = Inr ''1234567890123''
   \<and> Enabled sample_client
   \<and> \<not> Enabled (SetAPIKeys sample_collaborators sample_client ''key'' ''not base64!'')
   \<and> length (filter is_HTTPRequest
        (snd (SendAuthenticatedRequest sample_collaborators (\<lambda>raw t. Inr ()) sample_now
                (SetAPIKeys sample_collaborators sample_client ''key'' ''not base64!'')
                ''GET'' BTCMARKETS_ACCOUNT_BALANCE None Discard))) = 1"
  using SetAPIKeys_decode_failure_disables_client_only [OF sample_client_supported sample_secret_rejected,
      where now = sample_now and nonce = "''1234567890123''" and apiKey = "''key''"
        and dec = "\<lambda>raw t. Inr ()" and reqType = "''GET''" and path = BTCMARKETS_ACCOUNT_BALANCE
        and data = None and result = Discard]
  by (simp add: sample_client_supported sample_secret_rejected nonce_at_sample_now)
     (simp add: sample_client_def SetDefaults_def)

text \<open>
  The claim that no transport request is made after a failed decoding is false:
  \<open>GetOrders\<close> on the client that \<open>SetAPIKeys\<close> has just disabled sends its request.
\<close>

theorem disabled_client_still_sends_counterexample:
  "Base64Decode sample_collaborators ''not base64!'' = Inl ''illegal base64 data''
   \<and> \<not> Enabled (SetAPIKeys sample_collaborators sample_client ''key'' ''not base64!'')
   \<and> filter is_HTTPRequest
        (snd (GetOrders sample_collaborators (\<lambda>request. Inr ''{}'') (\<lambda>raw t. Inr ()) sample_now
                (SetAPIKeys sample_collaborators sample_client ''key'' ''not base64!'')
                ''AUD'' ''BTC'' 10 0 False)) \<noteq> []"
  by (simp add: GetOrders_sample_events sample_secret_rejected)
     (simp add: SetAPIKeys_def sample_client_def sample_collaborators_def)

text \<open>
  C6, as the code has it. The nonce is the first 13 bytes of the decimal rendering of the
  clock reading in nanoseconds. When the reading is at least \<open>10^12\<close> ns (1000 s after
  the epoch) the rendering has at least 13 digits and no sign, so the nonce is a string of
  13 decimal digits, the leading 13 digits of the reading: the digits of the reading
  divided by the power of ten that leaves 13 of them. It is the value of the
  \<open>timestamp\<close> header of the request.
\<close>

theorem nonce_thirteen_leading_digits:
  assumes "10 ^ 12 \<le> sint now"
  shows "\<exists>nonce. nonce_at now = Inr nonce \<and> length nonce = 13
     \<and> (\<forall>ch \<in> set nonce. is_digit ch)
     \<and> nonce = take 13 (FormatInt (sint now))
     \<and> nonce = FormatUint (nat (sint now) div 10 ^ (length (FormatUint (nat (sint now))) - 13))
     \<and> header_of (hd (snd (SendAuthenticatedRequest c dec now b reqType path data result)))
           ''timestamp'' = Some nonce"
proof -
  let ?s = "FormatUint (nat (sint now))"
  let ?nonce = "take 13 ?s"
  note facts = nonce_at_large [OF assms]
  have 1: "nonce_at now = Inr ?nonce" by (rule facts(1))
  have 2: "length ?nonce = 13" using facts(2) by simp
  have 3: "\<forall>ch \<in> set ?nonce. is_digit ch"
    using FormatUint_digits [of "nat (sint now)"] by (meson in_set_takeD)
  have 4: "?nonce = take 13 (FormatInt (sint now))" by (simp add: facts(3))
  have 5: "?nonce = FormatUint (nat (sint now) div 10 ^ (length ?s - 13))"
    using facts(2) by (intro FormatUint_take) simp_all
  have 6: "header_of (hd (snd (SendAuthenticatedRequest c dec now b reqType path data result)))
           ''timestamp'' = Some ?nonce"
    by (simp add: SendAuthenticatedRequest_header [OF 1] request_headers_timestamp)
  from 1 2 3 4 5 6 show ?thesis by blast
qed

text \<open>The instance at 1234567890123456789 ns: the nonce is \<open>1234567890123\<close>.\<close>

theorem nonce_thirteen_leading_digits_witness:
  "10 ^ 12 \<le> sint sample_now \<and> nonce_at sample_now = Inr ''1234567890123''
   \<and> FormatInt (sint sample_now) = ''1234567890123456789''
   \<and> header_of (hd (snd (SendAuthenticatedRequest sample_collaborators (\<lambda>raw t. Inr ()) sample_now
         sample_client ''GET'' BTCMARKETS_ACCOUNT_BALANCE None Discard))) ''timestamp''
       = Some ''1234567890123''"
proof -
  have h: "10 ^ 12 \<le> sint sample_now" by (simp add: sint_sample_now)
  from nonce_thirteen_leading_digits [OF h, of sample_collaborators "\<lambda>raw t. Inr ()" sample_client
      "''GET''" BTCMARKETS_ACCOUNT_BALANCE None Discard]
  obtain nonce where n: "nonce = take 13 (FormatInt (sint sample_now))"
    and "nonce_at sample_now = Inr nonce"
    and "header_of (hd (snd (SendAuthenticatedRequest sample_collaborators (\<lambda>raw t. Inr ()) sample_now
         sample_client ''GET'' BTCMARKETS_ACCOUNT_BALANCE None Discard))) ''timestamp'' = Some nonce"
    by blast
  moreover from n have "nonce = ''1234567890123''" by (simp add: FormatInt_sample_now)
  ultimately show ?thesis using h by (simp add: FormatInt_sample_now)
qed

text \<open>
  For a reading below \<open>10^12\<close> ns the rendering is shorter than 13 bytes and the slice
  panics (at the epoch itself, and one nanosecond before 1000 s); for a reading before
  the epoch the first byte of the nonce is the minus sign.
\<close>

theorem nonce_counterexample:
  "nonce_at 0 = Inl (Panic ''slice bounds out of range'')
   \<and> nonce_at 999999999999 = Inl (Panic ''slice bounds out of range'')
   \<and> nonce_at (- 1234567890123456789) = Inr ''-123456789012''
   \<and> \<not> is_digit (CHR ''-'')"
  by (simp add: nonce_at_0 nonce_at_999999999999 nonce_at_negative is_digit_def)

text \<open>
  C2. For every path, body and clock reading that yields a nonce: the \<open>signature\<close>
  header of the request is the base64 encoding of the HMAC-SHA512, keyed by
  \<open>APISecret\<close>, of \<open>path\<close>, a newline, the nonce, a newline and the body when
  there is one, and of \<open>path\<close>, a newline, the nonce and a newline when there is none;
  the \<open>timestamp\<close> header is that nonce; and \<open>APISecret\<close> is what the decoder made of
  the configured secret. The hash and the encoding are the functions of the other file,
  whatever they compute.
\<close>

theorem signature_is_base64_hmac_sha512_of_canonical_string:
  assumes "nonce_at now = Inr nonce"
  shows "(data = Some body \<longrightarrow>
           header_of (hd (snd (SendAuthenticatedRequest c dec now b reqType path data result)))
             ''signature''
           = Some (Base64Encode c (GetHMAC c HASH_SHA512
                (path @ newline @ nonce @ newline @ body) (APISecret b))))
     \<and> (data = None \<longrightarrow>
           header_of (hd (snd (SendAuthenticatedRequest c dec now b reqType path data result)))
             ''signature''
           = Some (Base64Encode c (GetHMAC c HASH_SHA512
                (path @ newline @ nonce @ newline) (APISecret b))))
     \<and> header_of (hd (snd (SendAuthenticatedRequest c dec now b reqType path data result)))
             ''timestamp'' = Some nonce
     \<and> (AuthenticatedAPISupport b0 \<and> Base64Decode c apiSecret = Inr secret \<longrightarrow>
           APISecret (SetAPIKeys c b0 apiKey apiSecret) = secret)"
  by (simp add: SendAuthenticatedRequest_header [OF assms] request_headers_signature
      request_headers_timestamp canonical_request_def SetAPIKeys_def)

text \<open>
  The instance of the specification: the secret decodes to \<open>abc123\<close>, the path is
  \<open>/order/create\<close>, the nonce \<open>1234567890123\<close> and the body \<open>{"x":1}\<close>; and a request
  without a body.
\<close>

theorem signature_is_base64_hmac_sha512_of_canonical_string_witness:
  "nonce_at sample_now = Inr ''1234567890123''
   \<and> AuthenticatedAPISupport sample_client
   \<and> Base64Decode sample_collaborators ''YWJjMTIz'' = Inr ''abc123''
   \<and> APISecret (SetAPIKeys sample_collaborators sample_client ''key'' ''YWJjMTIz'') = ''abc123''
   \<and> header_of (hd (snd (SendAuthenticatedRequest sample_collaborators (\<lambda>raw t. Inr ()) sample_now
          (SetAPIKeys sample_collaborators sample_client ''key'' ''YWJjMTIz'')
          ''POST'' ''/order/create'' (Some sample_body) Discard))) ''signature''
       = Some (Base64Encode sample_collaborators (GetHMAC sample_collaborators HASH_SHA512
            (''/order/create'' @ newline @ ''1234567890123'' @ newline @ sample_body) ''abc123''))
   \<and> header_of (hd (snd (SendAuthenticatedRequest sample_collaborators (\<lambda>raw t. Inr ()) sample_now
          (SetAPIKeys sample_collaborators sample_client ''key'' ''YWJjMTIz'')
          ''GET'' ''/account/balance'' None Discard))) ''signature''
       = Some (Base64Encode sample_collaborators (GetHMAC sample_collaborators HASH_SHA512
            (''/account/balance'' @ newline @ ''1234567890123'' @ newline) ''abc123''))"
proof -
  have d: "Base64Decode sample_collaborators ''YWJjMTIz'' = Inr ''abc123''"
    by (simp add: sample_collaborators_def)
  note t = signature_is_base64_hmac_sha512_of_canonical_string [OF nonce_at_sample_now,
      where c = sample_collaborators and dec = "\<lambda>raw t. Inr ()"
        and b = "SetAPIKeys sample_collaborators sample_client ''key'' ''YWJjMTIz''"
        and b0 = sample_client and apiKey = "''key''" and apiSecret = "''YWJjMTIz''"
        and secret = "''abc123''" and result = Discard]
  from t [where data = "Some sample_body" and body = sample_body and reqType = "''POST''"
      and path = "''/order/create''"]
    t [where data = None and reqType = "''GET''" and path = "''/account/balance''"]
  show ?thesis
    using d sample_client_supported nonce_at_sample_now by simp
qed

text \<open>
  C4. When the order is encoded, the nonce formed, the request answered and the answer
  decoded into a response \<open>resp\<close>: \<open>Order\<close> returns \<open>resp.ID\<close> when \<open>resp.Success\<close>
  is true, and otherwise the error whose message is the client's name, the text
  \<open>Unable to place order. Error message:\<close> and \<open>resp.ErrorMessage\<close>; no id comes
  with the error.
\<close>

theorem Order_rejected_or_id:
  assumes "JSONEncode \<lparr>Order_Currency = currency, Order_Instrument = instrument, Order_Price = price,
             Order_Volume = amount, Order_OrderSide = orderSide, Order_OrderType = orderType,
             Order_ClientRequestId = clientReq\<rparr> = Inr JSONPayload"
    and "nonce_at now = Inr nonce"
    and "SendHTTPRequest c ''POST'' (BTCMARKETS_API_URL @ BTCMARKETS_ORDER_CREATE)
           (request_headers c b nonce (canonical_request BTCMARKETS_ORDER_CREATE nonce (Some JSONPayload)))
           JSONPayload = Inr raw"
    and "JSONDecode raw (Into Order_Response_zero) = Inr resp"
  shows "fst (Order c JSONEncode JSONDecode now b currency instrument price amount orderSide
               orderType clientReq)
         = (if Order_Success resp then Inr (Order_ID resp)
            else Inl (Error (Name b @ '' Unable to place order. Error message: ''
                    @ Order_ErrorMessage resp @ newline)))"
proof -
  from assms(3) have "SendHTTPRequest c ''POST'' (BTCMARKETS_API_URL @ BTCMARKETS_ORDER_CREATE)
           (request_headers c b nonce (canonical_request BTCMARKETS_ORDER_CREATE nonce (Some JSONPayload)))
           (bytes_NewBuffer (Some JSONPayload)) = Inr raw"
    by (simp add: bytes_NewBuffer_def)
  from SendAuthenticatedRequest_decoded [OF assms(2) this, of JSONDecode "Into Order_Response_zero"]
  show ?thesis
    using assms(1,4) by (simp add: Order_def GetName_def newline_def)
qed

text \<open>The instances: a rejected order with the message \<open>Insufficient funds\<close>, and an
  accepted one with the id 100.\<close>

theorem Order_rejected_or_id_witness:
  "fst (Order sample_collaborators (\<lambda>order. Inr ''{}'')
          (\<lambda>raw t. Inr \<lparr>Order_Success = False, Order_ErrorCode = 3,
                Order_ErrorMessage = ''Insufficient funds'', Order_ID = 0,
                Order_ClientRequestID = ''abc''\<rparr>)
          sample_now sample_client ''AUD'' ''BTC'' 13000000000 10000000 ''Bid'' ''Limit'' ''abc'')
     = Inl (Error (''BTC Markets Unable to place order. Error message: Insufficient funds'' @ newline))
   \<and> fst (Order sample_collaborators (\<lambda>order. Inr ''{}'')
          (\<lambda>raw t. Inr \<lparr>Order_Success = True, Order_ErrorCode = 0,
                Order_ErrorMessage = [], Order_ID = 100,
                Order_ClientRequestID = ''abc''\<rparr>)
          sample_now sample_client ''AUD'' ''BTC'' 13000000000 10000000 ''Bid'' ''Limit'' ''abc'')
     = Inr 100"
proof -
  have tr: "SendHTTPRequest sample_collaborators ''POST'' (BTCMARKETS_API_URL @ BTCMARKETS_ORDER_CREATE)
      (request_headers sample_collaborators sample_client ''1234567890123''
         (canonical_request BTCMARKETS_ORDER_CREATE ''1234567890123'' (Some ''{}''))) ''{}'' = Inr ''{}''"
    by (simp add: sample_collaborators_def)
  have n: "Name sample_client = ''BTC Markets''"
    by (simp add: sample_client_def SetDefaults_def)
  note t = Order_rejected_or_id [where JSONEncode = "\<lambda>order. Inr ''{}''", OF refl nonce_at_sample_now tr]
  from t [where JSONDecode = "\<lambda>raw t. Inr \<lparr>Order_Success = False, Order_ErrorCode = 3,
                Order_ErrorMessage = ''Insufficient funds'', Order_ID = 0,
                Order_ClientRequestID = ''abc''\<rparr>", OF refl]
    t [where JSONDecode = "\<lambda>raw t. Inr \<lparr>Order_Success = True, Order_ErrorCode = 0,
                Order_ErrorMessage = [], Order_ID = 100,
                Order_ClientRequestID = ''abc''\<rparr>", OF refl]
  show ?thesis by (simp add: n)
qed

text \<open>
  C3, as the code has it. When the batch is encoded, the nonce formed, the request
  answered and the answer decoded into a response that reports overall success:
  \<open>CancelOrder\<close> returns success exactly when the number of sub-responses that report
  success equals the number of requested ids, and the error
  \<open>Unable to cancel order(s).\<close> otherwise. So when the response carries no more
  sub-responses than ids were requested and one of them reports a failure, the call
  fails.
\<close>

theorem CancelOrder_success_iff_count_matches:
  assumes "JSONEncode \<lparr>Cancel_OrderIDs = orderID\<rparr> = Inr JSONPayload"
    and "nonce_at now = Inr nonce"
    and "SendHTTPRequest c ''POST'' (BTCMARKETS_API_URL @ BTCMARKETS_ORDER_CANCEL)
           (request_headers c b nonce (canonical_request BTCMARKETS_ORDER_CANCEL nonce (Some JSONPayload)))
           JSONPayload = Inr raw"
    and "JSONDecode raw (Into CancelOrder_Response_zero) = Inr resp"
    and "Cancel_Success resp"
  shows "(fst (CancelOrder c JSONEncode JSONDecode now b orderID) = Inr True)
           = (length (filter Item_Success (Cancel_Responses resp)) = length orderID)
     \<and> (length (filter Item_Success (Cancel_Responses resp)) \<noteq> length orderID \<longrightarrow>
          fst (CancelOrder c JSONEncode JSONDecode now b orderID)
            = Inl (Error (Name b @ '' Unable to cancel order(s).'')))
     \<and> (length (Cancel_Responses resp) \<le> length orderID
          \<and> (\<exists>y \<in> set (Cancel_Responses resp). \<not> Item_Success y) \<longrightarrow>
          fst (CancelOrder c JSONEncode JSONDecode now b orderID)
            = Inl (Error (Name b @ '' Unable to cancel order(s).'')))"
proof -
  have r: "fst (CancelOrder c JSONEncode JSONDecode now b orderID)
         = (if length (filter Item_Success (Cancel_Responses resp)) = length orderID then Inr True
            else Inl (Error (Name b @ '' Unable to cancel order(s).'')))"
    using assms by (rule CancelOrder_reconciled)
  have strict: "length (Cancel_Responses resp) \<le> length orderID
      \<and> (\<exists>y \<in> set (Cancel_Responses resp). \<not> Item_Success y) \<longrightarrow>
      length (filter Item_Success (Cancel_Responses resp)) \<noteq> length orderID"
  proof (intro impI, elim conjE bexE)
    fix y
    assume le: "length (Cancel_Responses resp) \<le> length orderID"
      and y: "y \<in> set (Cancel_Responses resp)" "\<not> Item_Success y"
    from y have "length (filter Item_Success (Cancel_Responses resp)) < length (Cancel_Responses resp)"
      by (rule length_filter_less)
    with le show "length (filter Item_Success (Cancel_Responses resp)) \<noteq> length orderID"
      by simp
  qed
  show ?thesis unfolding r using strict by simp
qed

text \<open>The instance: ids 7 and 8 requested, 7 cancelled and 8 not.\<close>

theorem CancelOrder_success_iff_count_matches_witness:
  "Cancel_Success sample_cancel_response
   \<and> length (Cancel_Responses sample_cancel_response) \<le> length [7, 8 :: int64]
   \<and> (\<exists>y \<in> set (Cancel_Responses sample_cancel_response). \<not> Item_Success y)
   \<and> fst (CancelOrder sample_collaborators (\<lambda>orders. Inr ''{}'')
            (\<lambda>raw t. Inr sample_cancel_response) sample_now sample_client [7, 8])
       = Inl (Error ''BTC Markets Unable to cancel order(s).'')"
  using CancelOrder_success_iff_count_matches [where JSONEncode = "\<lambda>orders. Inr ''{}''"
      and JSONDecode = "\<lambda>raw t. Inr sample_cancel_response" and orderID = "[7, 8]",
      OF refl nonce_at_sample_now sample_transport_cancel refl sample_cancel_response_facts(1)]
  by (simp add: sample_cancel_response_facts sample_client_Name)

text \<open>
  The claim fails when the response carries more sub-responses than ids were requested:
  for the single id 7 and the sub-responses (7, cancelled) and (8, not cancelled), only a
  strict subset of the sub-responses reports success and \<open>CancelOrder\<close> returns success.
\<close>

theorem CancelOrder_extra_subresponse_counterexample:
  "Cancel_Success sample_cancel_response
   \<and> [7 :: int64] \<noteq> []
   \<and> (\<exists>y \<in> set (Cancel_Responses sample_cancel_response). \<not> Item_Success y)
   \<and> (\<exists>y \<in> set (Cancel_Responses sample_cancel_response). Item_Success y)
   \<and> fst (CancelOrder sample_collaborators (\<lambda>orders. Inr ''{}'')
            (\<lambda>raw t. Inr sample_cancel_response) sample_now sample_client [7])
       = Inr True"
proof -
  have "fst (CancelOrder sample_collaborators (\<lambda>orders. Inr ''{}'')
            (\<lambda>raw t. Inr sample_cancel_response) sample_now sample_client [7]) = Inr True"
    using CancelOrder_reconciled [where JSONEncode = "\<lambda>orders. Inr ''{}''"
      and JSONDecode = "\<lambda>raw t. Inr sample_cancel_response" and orderID = "[7]",
      OF refl nonce_at_sample_now sample_transport_cancel refl sample_cancel_response_facts(1)]
    by (simp add: sample_cancel_response_facts)
  then show ?thesis by (simp add: sample_cancel_response_def)
qed

text \<open>
  C5. For every symbol: with \<open>since\<close> empty \<open>GetTrades\<close> requests the path
  \<open>/market/SYMBOL/AUD/trades\<close> and nothing after it; with \<open>since = 12345\<close> it requests
  that path followed by \<open>?since=12345\<close>; in general the query is absent for an empty
  \<open>since\<close> and is \<open>?since=\<close> and the value otherwise.
\<close>

theorem GetTrades_since_parameter:
  "snd (GetTrades get b symbol []) =
     [HTTPGetRequest (BTCMARKETS_API_URL @ ''/market/'' @ symbol @ ''/AUD/trades'') True]
   \<and> snd (GetTrades get b symbol ''12345'') =
     [HTTPGetRequest (BTCMARKETS_API_URL @ ''/market/'' @ symbol @ ''/AUD/trades?since=12345'') True]
   \<and> snd (GetTrades get b symbol since) =
     [HTTPGetRequest (BTCMARKETS_API_URL @ ''/market/'' @ symbol @ ''/AUD/trades''
        @ (if since = [] then [] else ''?since='' @ since)) True]"
  by (simp add: GetTrades_def Let_def split: sum.splits)

text \<open>
  C7. With \<open>nil\<close> as the result, once the nonce is formed and the transport has
  answered \<open>raw\<close>: \<open>JSONDecode\<close> is called on \<open>raw\<close>, the call returns what the decoder
  answers, so a decoding error is returned to the caller as it is. The calls made are the
  same as with a pointer to a struct as the result, and where the decoder answers the same
  for both targets (as it does for text that is not JSON) the whole outcome is the same.
\<close>

theorem nil_result_still_decoded:
  assumes "nonce_at now = Inr nonce"
    and "SendHTTPRequest c reqType (BTCMARKETS_API_URL @ path)
           (request_headers c b nonce (canonical_request path nonce data)) (bytes_NewBuffer data) = Inr raw"
  shows "JSONDecodeCall raw \<in> set (snd (SendAuthenticatedRequest c JSONDecode now b reqType path data Discard))
     \<and> fst (SendAuthenticatedRequest c JSONDecode now b reqType path data Discard)
         = (case JSONDecode raw Discard of Inl err \<Rightarrow> Inl (Error err) | Inr v \<Rightarrow> Inr v)
     \<and> (JSONDecode raw Discard = Inl err \<longrightarrow>
          fst (SendAuthenticatedRequest c JSONDecode now b reqType path data Discard) = Inl (Error err))
     \<and> snd (SendAuthenticatedRequest c JSONDecode now b reqType path data (Into r))
         = snd (SendAuthenticatedRequest c JSONDecode now b reqType path data Discard)
     \<and> (JSONDecode raw (Into r) = JSONDecode raw Discard \<longrightarrow>
          SendAuthenticatedRequest c JSONDecode now b reqType path data (Into r)
          = SendAuthenticatedRequest c JSONDecode now b reqType path data Discard)"
  by (simp add: SendAuthenticatedRequest_decoded [OF assms])

text \<open>The instance: a decoder that rejects the answer, with \<open>nil\<close> and with a pointer
  as the result.\<close>

theorem nil_result_still_decoded_witness:
  "nonce_at sample_now = Inr ''1234567890123''
   \<and> JSONDecodeCall ''{}'' \<in> set (snd (SendAuthenticatedRequest sample_collaborators
         (\<lambda>raw t. Inl ''unexpected end of JSON input'') sample_now sample_client ''POST''
         BTCMARKETS_ORDER_OPEN (Some sample_body) (Discard :: unit target)))
   \<and> fst (SendAuthenticatedRequest sample_collaborators
         (\<lambda>raw t. Inl ''unexpected end of JSON input'') sample_now sample_client ''POST''
         BTCMARKETS_ORDER_OPEN (Some sample_body) (Discard :: unit target))
       = Inl (Error ''unexpected end of JSON input'')
   \<and> SendAuthenticatedRequest sample_collaborators
         (\<lambda>raw t. Inl ''unexpected end of JSON input'') sample_now sample_client ''POST''
         BTCMARKETS_ORDER_OPEN (Some sample_body) (Into ())
       = SendAuthenticatedRequest sample_collaborators
         (\<lambda>raw t. Inl ''unexpected end of JSON input'') sample_now sample_client ''POST''
         BTCMARKETS_ORDER_OPEN (Some sample_body) Discard"
  using nil_result_still_decoded [OF nonce_at_sample_now sample_transport,
      where JSONDecode = "\<lambda>raw t. Inl ''unexpected end of JSON input''"
        and err = "''unexpected end of JSON input''" and r = "()" and b = sample_client
        and reqType = "''POST''" and path = BTCMARKETS_ORDER_OPEN and data = "Some sample_body"]
  by (simp add: nonce_at_sample_now)

text \<open>
  C8. A task of the polling cycle, for the pair \<open>currency\<close>. If \<open>GetTicker\<close> returns an
  error, the task leaves the client, and so the whole map \<open>Ticker\<close>, as it was, makes no
  call but the fetch and ends without a panic. If \<open>GetTicker\<close> returns a ticker and the
  map has been made, the task changes nothing of the client but the map, where it stores
  the ticker under \<open>currency\<close>; every other key reads as before. And whenever the map
  after the task differs from the map before, the fetch succeeded and the entry under
  \<open>currency\<close> is the fetched ticker.
\<close>

theorem Run_task_writes_only_on_success:
  "(fst (GetTicker get b currency) = Inl err \<longrightarrow>
      fst (snd (Run_task c get b currency)) = b
      \<and> Ticker (fst (snd (Run_task c get b currency))) = Ticker b
      \<and> fst (Run_task c get b currency) = None
      \<and> snd (snd (Run_task c get b currency)) = snd (GetTicker get b currency))
   \<and> (fst (GetTicker get b currency) = Inr ticker \<and> Ticker b = Some m \<longrightarrow>
      fst (snd (Run_task c get b currency)) = b\<lparr>Ticker := Some (m(currency \<mapsto> ticker))\<rparr>
      \<and> Ticker_at (fst (snd (Run_task c get b currency))) currency = Some ticker
      \<and> (\<forall>other. other \<noteq> currency \<longrightarrow>
            Ticker_at (fst (snd (Run_task c get b currency))) other = Ticker_at b other))
   \<and> (Ticker (fst (snd (Run_task c get b currency))) \<noteq> Ticker b \<longrightarrow>
      (\<exists>fetched. fst (GetTicker get b currency) = Inr fetched
         \<and> Ticker_at (fst (snd (Run_task c get b currency))) currency = Some fetched))"
proof -
  have 1: "fst (GetTicker get b currency) = Inl err \<longrightarrow>
      fst (snd (Run_task c get b currency)) = b
      \<and> Ticker (fst (snd (Run_task c get b currency))) = Ticker b
      \<and> fst (Run_task c get b currency) = None
      \<and> snd (snd (Run_task c get b currency)) = snd (GetTicker get b currency)"
    by (simp add: Run_task_fetch_error)
  have 2: "fst (GetTicker get b currency) = Inr ticker \<and> Ticker b = Some m \<longrightarrow>
      fst (snd (Run_task c get b currency)) = b\<lparr>Ticker := Some (m(currency \<mapsto> ticker))\<rparr>
      \<and> Ticker_at (fst (snd (Run_task c get b currency))) currency = Some ticker
      \<and> (\<forall>other. other \<noteq> currency \<longrightarrow>
            Ticker_at (fst (snd (Run_task c get b currency))) other = Ticker_at b other)"
    by (simp add: Run_task_fetch_ok Ticker_at_def)
  have 3: "Ticker (fst (snd (Run_task c get b currency))) \<noteq> Ticker b \<longrightarrow>
      (\<exists>fetched. fst (GetTicker get b currency) = Inr fetched
         \<and> Ticker_at (fst (snd (Run_task c get b currency))) currency = Some fetched)"
  proof (cases "fst (GetTicker get b currency)")
    case (Inl e)
    then show ?thesis by (simp add: Run_task_fetch_error)
  next
    case (Inr fetched)
    show ?thesis
    proof (cases "Ticker b")
      case None
      with Inr show ?thesis by (simp add: Run_task_nil_map)
    next
      case (Some m')
      with Inr show ?thesis by (simp add: Run_task_fetch_ok Ticker_at_def)
    qed
  qed
  from 1 2 3 show ?thesis by blast
qed

text \<open>The instance: a map that holds \<open>ETHAUD\<close>, and the task for \<open>BTCAUD\<close> with a
  fetch that fails and with a fetch that succeeds.\<close>

theorem Run_task_writes_only_on_success_witness:
  "fst (GetTicker (\<lambda>url j t. Inl ''timeout'') (sample_client\<lparr>Ticker := Some [''ETHAUD'' \<mapsto> sample_ticker]\<rparr>)
          ''BTCAUD'') = Inl ''timeout''
   \<and> Ticker (fst (snd (Run_task sample_collaborators (\<lambda>url j t. Inl ''timeout'')
          (sample_client\<lparr>Ticker := Some [''ETHAUD'' \<mapsto> sample_ticker]\<rparr>) ''BTCAUD'')))
       = Some [''ETHAUD'' \<mapsto> sample_ticker]
   \<and> fst (GetTicker (\<lambda>url j t. Inr (sample_ticker\<lparr>LastPrice := 9\<rparr>))
          (sample_client\<lparr>Ticker := Some [''ETHAUD'' \<mapsto> sample_ticker]\<rparr>) ''BTCAUD'')
       = Inr (sample_ticker\<lparr>LastPrice := 9\<rparr>)
   \<and> Ticker_at (fst (snd (Run_task sample_collaborators (\<lambda>url j t. Inr (sample_ticker\<lparr>LastPrice := 9\<rparr>))
          (sample_client\<lparr>Ticker := Some [''ETHAUD'' \<mapsto> sample_ticker]\<rparr>) ''BTCAUD''))) ''BTCAUD''
       = Some (sample_ticker\<lparr>LastPrice := 9\<rparr>)
   \<and> Ticker_at (fst (snd (Run_task sample_collaborators (\<lambda>url j t. Inr (sample_ticker\<lparr>LastPrice := 9\<rparr>))
          (sample_client\<lparr>Ticker := Some [''ETHAUD'' \<mapsto> sample_ticker]\<rparr>) ''BTCAUD''))) ''ETHAUD''
       = Some sample_ticker"
proof -
  let ?b = "sample_client\<lparr>Ticker := Some [''ETHAUD'' \<mapsto> sample_ticker]\<rparr>"
  have e: "fst (GetTicker (\<lambda>url j t. Inl ''timeout'') ?b ''BTCAUD'') = Inl ''timeout''"
    by (simp add: GetTicker_def Let_def)
  have s: "fst (GetTicker (\<lambda>url j t. Inr (sample_ticker\<lparr>LastPrice := 9\<rparr>)) ?b ''BTCAUD'')
      = Inr (sample_ticker\<lparr>LastPrice := 9\<rparr>)"
    by (simp add: GetTicker_def Let_def)
  from Run_task_writes_only_on_success [where get = "\<lambda>url j t. Inl ''timeout''" and b = ?b
      and currency = "''BTCAUD''" and err = "''timeout''" and c = sample_collaborators]
    Run_task_writes_only_on_success [where get = "\<lambda>url j t. Inr (sample_ticker\<lparr>LastPrice := 9\<rparr>)"
      and b = ?b and currency = "''BTCAUD''" and ticker = "sample_ticker\<lparr>LastPrice := 9\<rparr>"
      and c = sample_collaborators and m = "[''ETHAUD'' \<mapsto> sample_ticker]"]
  show ?thesis using e s by (simp add: Ticker_at_def)
qed

text \<open>
  C9. For a symbol of length 6 both slices of the task are in bounds,
  \<open>currency[0:3]\<close> is the first three bytes and \<open>currency[3:]\<close> the last three, and
  a task whose fetch succeeded (on a map that has been made) ends without a panic after
  passing them to \<open>AddExchangeInfo\<close>. For a symbol shorter than 3 bytes
  \<open>currency[0:3]\<close> panics, and such a task panics before it calls \<open>AddExchangeInfo\<close>:
  nothing checks the length.
\<close>

theorem Run_task_fixed_width_split:
  "(length currency = 6 \<longrightarrow>
      slice currency 0 3 = Inr (take 3 currency)
      \<and> slice_from currency 3 = Inr (drop 3 currency)
      \<and> length (take 3 currency) = 3 \<and> length (drop 3 currency) = 3
      \<and> (fst (GetTicker get b currency) = Inr ticker \<and> Ticker b = Some m \<longrightarrow>
           fst (Run_task c get b currency) = None
           \<and> snd (snd (Run_task c get b currency)) =
               snd (GetTicker get b currency) @
               [ExchangeInfo (Name b) (take 3 currency) (drop 3 currency) (LastPrice ticker) 0,
                ExchangeInfo (Name b) (take 3 currency) ''USD''
                  (fst (ConvertCurrency c (LastPrice ticker) ''AUD'' ''USD'')) 0]))
   \<and> (length currency < 3 \<longrightarrow>
      slice currency 0 3 = Inl (Panic ''slice bounds out of range'')
      \<and> (fst (GetTicker get b currency) = Inr ticker \<and> Ticker b = Some m \<longrightarrow>
           fst (Run_task c get b currency) = Some (Panic ''slice bounds out of range'')
           \<and> snd (snd (Run_task c get b currency)) = snd (GetTicker get b currency)))"
  by (cases "GetTicker get b currency")
     (simp add: Run_task_def Let_def slice_def slice_from_def GetName_def)

text \<open>The instances: \<open>BTCAUD\<close> is split into \<open>BTC\<close> and \<open>AUD\<close>; the task for \<open>BT\<close>
  panics.\<close>

theorem Run_task_fixed_width_split_witness:
  "length ''BTCAUD'' = 6
   \<and> fst (GetTicker (\<lambda>url j t. Inr sample_ticker) sample_client ''BTCAUD'') = Inr sample_ticker
   \<and> Ticker sample_client = Some Map.empty
   \<and> snd (snd (Run_task sample_collaborators (\<lambda>url j t. Inr sample_ticker) sample_client ''BTCAUD''))
       = [HTTPGetRequest ''https://api.btcmarkets.net/market/BTCAUD/AUD/tick'' True,
          ExchangeInfo ''BTC Markets'' ''BTC'' ''AUD'' 3 0,
          ExchangeInfo ''BTC Markets'' ''BTC'' ''USD'' 3 0]
   \<and> length ''BT'' < 3
   \<and> fst (GetTicker (\<lambda>url j t. Inr sample_ticker) sample_client ''BT'') = Inr sample_ticker
   \<and> fst (Run_task sample_collaborators (\<lambda>url j t. Inr sample_ticker) sample_client ''BT'')
       = Some (Panic ''slice bounds out of range'')"
proof -
  have l: "LastPrice sample_ticker = 3" by (simp add: sample_ticker_def)
  have cv: "fst (ConvertCurrency sample_collaborators 3 ''AUD'' ''USD'') = 3"
    by (simp add: sample_collaborators_def)
  note t = Run_task_fixed_width_split [where get = "\<lambda>url j t. Inr sample_ticker"
      and ticker = sample_ticker and m = Map.empty and b = sample_client
      and c = sample_collaborators]
  from t [where currency = "''BTCAUD''"] t [where currency = "''BT''"]
  show ?thesis
    by (simp add: GetTicker_sample_ok GetTicker_events l cv sample_client_Name
        sample_client_Ticker BTCMARKETS_API_URL_def)
qed

end
